theory Spec2Isabelle
  imports Complex_Main "HOL-Library.Word" "HOL-Library.AList" "HOL-Library.Multiset"
begin

unbundle bit_operations_syntax

section \<open>Shared conventions\<close>

text \<open>
  The development embeds the search pipeline of the flight aggregator: the TTL cache and
  its key derivation, the retry executor, the aggregator, the filter engine, the scorer,
  the sorter, two provider adapters and the search orchestrator.

  \<^item> Go maps are association lists with distinct keys (\<open>m[k] = v\<close> is \<open>AList.update\<close>,
    \<open>len(m)\<close> is \<open>length\<close>); the iteration order of a map never reaches a result.
  \<^item> A \<open>time.Time\<close> is an instant in nanoseconds since the Unix epoch together with the
    offset of its location in seconds east of UTC.
  \<^item> \<open>int\<close> and \<open>time.Duration\<close> values are unbounded integers, the \<open>int64\<close> counters of
    the cache statistics are 64-bit words, and \<open>float64\<close> values are real numbers: rounding
    and the special values NaN and infinity are outside the model.
  \<^item> Functions of the Go standard library that the repository calls but does not contain
    (\<open>json.Marshal\<close>, \<open>sha256.Sum256\<close>, \<open>time.Parse\<close>) are parameters.
\<close>

type_synonym Duration = int

record Time =
  unix_nanos :: int
  zone_offset :: int

definition Time_After :: "Time \<Rightarrow> Time \<Rightarrow> bool" where
  "Time_After t u = (unix_nanos u < unix_nanos t)"

definition Time_Before :: "Time \<Rightarrow> Time \<Rightarrow> bool" where
  "Time_Before t u = (unix_nanos t < unix_nanos u)"

definition Time_Add :: "Time \<Rightarrow> Duration \<Rightarrow> Time" where
  "Time_Add t d = t\<lparr>unix_nanos := unix_nanos t + d\<rparr>"

definition Time_Unix :: "Time \<Rightarrow> int" where
  "Time_Unix t = unix_nanos t div 1000000000"

text \<open>The wall-clock reading of an instant in its own location, in seconds.\<close>

definition wall_seconds :: "Time \<Rightarrow> int" where
  "wall_seconds t = Time_Unix t + zone_offset t"

definition Time_Hour :: "Time \<Rightarrow> int" where
  "Time_Hour t = (wall_seconds t mod 86400) div 3600"

section \<open>Errors\<close>

text \<open>
  A Go \<open>error\<close>: the four sentinels of package \<open>providers\<close>, the two context errors, a
  \<open>ValidationError\<close> with its field and message, and an error built by \<open>fmt.Errorf\<close>,
  which carries its formatted message and the error wrapped by \<open>%w\<close> when there is one.
\<close>

datatype error =
    ErrProviderTimeout
  | ErrProviderUnavailable
  | ErrInvalidResponse
  | ErrNoFlightsFound
  | ContextCanceled
  | ContextDeadlineExceeded
  | ValidationError string string
  | Errorf string "error option"

fun Error :: "error \<Rightarrow> string" where
  "Error ErrProviderTimeout = ''provider request timeout''"
| "Error ErrProviderUnavailable = ''provider unavailable''"
| "Error ErrInvalidResponse = ''invalid response from provider''"
| "Error ErrNoFlightsFound = ''no flights found''"
| "Error ContextCanceled = ''context canceled''"
| "Error ContextDeadlineExceeded = ''context deadline exceeded''"
| "Error (ValidationError field message) = field @ '': '' @ message"
| "Error (Errorf msg wrapped) = msg"

fun errors_Is :: "error \<Rightarrow> error \<Rightarrow> bool" where
  "errors_Is (Errorf msg (Some e)) target = (Errorf msg (Some e) = target \<or> errors_Is e target)"
| "errors_Is e target = (e = target)"

section \<open>Models\<close>

record Airline =
  Name :: string
  Code :: string

record FlightLocation =
  Airport :: string
  City :: string
  Datetime :: Time
  Timestamp :: int

record FlightDuration =
  TotalMinutes :: int
  Formatted :: string

record Money =
  Amount :: real
  Currency :: string

record BaggageInfo =
  CarryOn :: string
  Checked :: string

record Flight =
  ID :: string
  Provider :: string
  FlightNumber :: string
  Airline :: Airline
  Departure :: FlightLocation
  Arrival :: FlightLocation
  Duration :: FlightDuration
  Stops :: int
  Price :: Money
  CabinClass :: string
  AvailableSeats :: int
  Aircraft :: string
  Amenities :: "string list"
  Baggage :: BaggageInfo

record TimeRange =
  Start :: int
  End :: int

text \<open>Pointer fields that are only read (\<open>*float64\<close>, \<open>*int\<close>, \<open>*TimeRange\<close>) are options.\<close>

record FilterOptions =
  MinPrice :: "real option"
  MaxPrice :: "real option"
  MaxStops :: "int option"
  Airlines :: "string list"
  DepartureTime :: "TimeRange option"
  ArrivalTime :: "TimeRange option"
  MaxDuration :: "int option"

record SearchRequest =
  Origin :: string
  Destination :: string
  DepartureDate :: string
  ReturnDate :: "string option"
  Passengers :: int
  req_CabinClass :: string
  Filters :: "FilterOptions option"
  SortBy :: string
  SortOrder :: string
  ReturnFilters :: "FilterOptions option"
  ReturnSortBy :: string
  ReturnSortOrder :: string

record SearchCriteria =
  sc_Origin :: string
  sc_Destination :: string
  sc_DepartureDate :: string
  sc_ReturnDate :: "string option"
  sc_Passengers :: int
  sc_CabinClass :: string

record SearchMetadata =
  TotalResults :: int
  ProvidersQueried :: int
  ProvidersSucceeded :: int
  ProvidersFailed :: int
  SearchTimeMs :: int
  CacheHit :: bool
  md_ProviderResults :: "(string \<times> int) list"
  md_ProviderErrors :: "(string \<times> string) list"

section \<open>Cache\<close>

record 'v CacheEntry =
  Data :: 'v
  ExpiresAt :: Time

record Stats =
  Hits :: "64 word"
  Misses :: "64 word"
  Evictions :: "64 word"
  Expirations :: "64 word"
  CurrentSize :: int
  TotalRequests :: "64 word"

record 'v Cache =
  cache_data :: "(string \<times> 'v CacheEntry) list"
  ttl :: Duration
  stats :: Stats

text \<open>\<open>IsExpired\<close> reads the clock; the reading is the argument \<open>now\<close>.\<close>

definition IsExpired :: "Time \<Rightarrow> 'v CacheEntry \<Rightarrow> bool" where
  "IsExpired now e = Time_After now (ExpiresAt e)"

definition Cache_New :: "Duration \<Rightarrow> 'v Cache" where
  "Cache_New d = \<lparr>cache_data = [], ttl = d,
     stats = \<lparr>Hits = 0, Misses = 0, Evictions = 0, Expirations = 0, CurrentSize = 0,
       TotalRequests = 0\<rparr>\<rparr>"

definition Cache_Set :: "Time \<Rightarrow> string \<Rightarrow> 'v \<Rightarrow> 'v Cache \<Rightarrow> 'v Cache" where
  "Cache_Set now key v c =
     (let d = AList.update key \<lparr>Data = v, ExpiresAt = Time_Add now (ttl c)\<rparr> (cache_data c)
      in c\<lparr>cache_data := d, stats := (stats c)\<lparr>CurrentSize := int (length d)\<rparr>\<rparr>)"

definition Cache_Get :: "Time \<Rightarrow> string \<Rightarrow> 'v Cache \<Rightarrow> 'v option \<times> 'v Cache" where
  "Cache_Get now key c =
     (let s = (stats c)\<lparr>TotalRequests := TotalRequests (stats c) + 1\<rparr>
      in case map_of (cache_data c) key of
           None \<Rightarrow> (None, c\<lparr>stats := s\<lparr>Misses := Misses s + 1\<rparr>\<rparr>)
         | Some entry \<Rightarrow>
             if IsExpired now entry
             then (None, c\<lparr>stats := s\<lparr>Misses := Misses s + 1,
                                        Expirations := Expirations s + 1\<rparr>\<rparr>)
             else (Some (Data entry), c\<lparr>stats := s\<lparr>Hits := Hits s + 1\<rparr>\<rparr>))"

definition removeExpiredEntries :: "Time \<Rightarrow> 'v Cache \<Rightarrow> 'v Cache" where
  "removeExpiredEntries now c =
     (let kept = filter (\<lambda>(k, e). \<not> Time_After now (ExpiresAt e)) (cache_data c);
          expiredCount = int (length (cache_data c)) - int (length kept)
      in if 0 < expiredCount
         then c\<lparr>cache_data := kept,
                stats := (stats c)\<lparr>Expirations := Expirations (stats c) + word_of_int expiredCount,
                                   CurrentSize := int (length kept)\<rparr>\<rparr>
         else c\<lparr>cache_data := kept\<rparr>)"

subsection \<open>Key generation\<close>








section \<open>Retry executor\<close>

text \<open>\<open>%d\<close>: the decimal rendering of an integer.\<close>

function digits_of_nat :: "nat \<Rightarrow> string" where
  "digits_of_nat n =
     (if n < 10 then [''0123456789'' ! n]
      else digits_of_nat (n div 10) @ [''0123456789'' ! (n mod 10)])"
  by pat_completeness auto
termination
  by (relation "measure id") auto

definition show_int :: "int \<Rightarrow> string" where
  "show_int i = (if i < 0 then ''-'' @ digits_of_nat (nat (- i)) else digits_of_nat (nat i))"

record Params =
  MaxAttempts :: int
  InitialDelay :: Duration
  MaxDelay :: Duration
  BackoffMultiplier :: real

text \<open>
  The cancellation signal is an oracle. \<open>done_before k\<close> is \<open>ctx.Err()\<close> when \<open>ctx.Done()\<close>
  is ready at the check that opens attempt \<open>k\<close>, and \<open>done_waiting k\<close> is \<open>ctx.Err()\<close> when
  the signal wins the \<open>select\<close> of the wait that follows attempt \<open>k\<close>; \<open>None\<close> means that
  the attempt, or the timer, goes ahead.
\<close>

record Context =
  done_before :: "int \<Rightarrow> error option"
  done_waiting :: "int \<Rightarrow> error option"

text \<open>The conversion \<open>time.Duration(x)\<close> of a float truncates towards zero.\<close>

definition truncate_real :: "real \<Rightarrow> int" where
  "truncate_real x = (if 0 \<le> x then \<lfloor>x\<rfloor> else \<lceil>x\<rceil>)"

definition next_delay :: "Params \<Rightarrow> Duration \<Rightarrow> Duration" where
  "next_delay params currentDelay =
     (let d = truncate_real (real_of_int currentDelay * BackoffMultiplier params)
      in if MaxDelay params < d then MaxDelay params else d)"

definition failed_after :: "string \<Rightarrow> Params \<Rightarrow> error option \<Rightarrow> error" where
  "failed_after operationName params lastErr =
     Errorf (operationName @ '': failed after '' @ show_int (MaxAttempts params) @ '' attempts: ''
               @ (case lastErr of None \<Rightarrow> ''%!w(<nil>)'' | Some e \<Rightarrow> Error e))
            lastErr"

text \<open>
  The loop of \<open>RetryWithCheck\<close>. The operation \<open>fn\<close> is a closure with effects: \<open>fn k\<close> is
  what its call in attempt \<open>k\<close> returns. The result is the returned error, the delays
  that were waited in full, and the number of calls of \<open>fn\<close>. Log output is left out.
\<close>

function RetryWithCheck_loop ::
  "Context \<Rightarrow> Params \<Rightarrow> (int \<Rightarrow> error option \<times> bool) \<Rightarrow> string \<Rightarrow> int \<Rightarrow> Duration \<Rightarrow>
   error option \<Rightarrow> Duration list \<Rightarrow> error option \<times> Duration list \<times> int" where
  "RetryWithCheck_loop ctx params fn operationName attempt currentDelay lastErr waited =
     (if attempt \<le> MaxAttempts params then
        (case done_before ctx attempt of
           Some ce \<Rightarrow>
             (Some (Errorf (operationName @ '': context cancelled: '' @ Error ce) (Some ce)),
              waited, attempt - 1)
         | None \<Rightarrow>
             (case fn attempt of
                (None, shouldRetry) \<Rightarrow> (None, waited, attempt)
              | (Some err, shouldRetry) \<Rightarrow>
                  if \<not> shouldRetry then (Some err, waited, attempt)
                  else if attempt = MaxAttempts params
                  then (Some (failed_after operationName params (Some err)), waited, attempt)
                  else (case done_waiting ctx attempt of
                          Some ce \<Rightarrow>
                            (Some (Errorf (operationName
                                     @ '': context cancelled during retry wait: '' @ Error ce)
                                   (Some ce)),
                             waited, attempt)
                        | None \<Rightarrow>
                            RetryWithCheck_loop ctx params fn operationName (attempt + 1)
                              (next_delay params currentDelay) (Some err)
                              (waited @ [currentDelay]))))
      else (Some (failed_after operationName params lastErr), waited, attempt - 1))"
  by pat_completeness auto
termination
  by (relation "measure (\<lambda>(ctx, params, fn, operationName, attempt, rest).
        nat (MaxAttempts params + 1 - attempt))") auto

definition RetryWithCheck ::
  "Context \<Rightarrow> Params \<Rightarrow> (int \<Rightarrow> error option \<times> bool) \<Rightarrow> string \<Rightarrow>
   error option \<times> Duration list \<times> int" where
  "RetryWithCheck ctx params fn operationName =
     RetryWithCheck_loop ctx params fn operationName 1 (InitialDelay params) None []"



section \<open>Aggregator\<close>

text \<open>
  A provider is its \<open>Name\<close> and its \<open>Search\<close>. A search has effects (simulated delay and
  failure, the deadline): \<open>Provider_Search p req k\<close> is what the \<open>k\<close>-th call of \<open>p.Search\<close>
  with \<open>req\<close> returns, the flights and the error.
\<close>

record Provider =
  Provider_Name :: string
  Provider_Search :: "SearchRequest \<Rightarrow> int \<Rightarrow> Flight list \<times> error option"

text \<open>
  The fields that hold elapsed times (\<open>ProviderResult.Duration\<close>,
  \<open>AggregatedResults.TotalDuration\<close>) are left out.
\<close>

record ProviderResult =
  pr_Provider :: string
  pr_Flights :: "Flight list"
  pr_Error :: "error option"

record AggregatedResults =
  Flights :: "Flight list"
  ProviderResults :: "(string \<times> int) list"
  ProviderErrors :: "(string \<times> string) list"

record Aggregator =
  providers :: "Provider list"
  timeout :: Duration
  retryParams :: Params

text \<open>\<open>strings.ToLower\<close> on byte strings: only the ASCII letters have a case.\<close>

definition lower_char :: "char \<Rightarrow> char" where
  "lower_char c =
     (case map_of (zip ''ABCDEFGHIJKLMNOPQRSTUVWXYZ'' ''abcdefghijklmnopqrstuvwxyz'') c of
        None \<Rightarrow> c
      | Some l \<Rightarrow> l)"

definition ToLower :: "string \<Rightarrow> string" where
  "ToLower s = map lower_char s"

text \<open>The map \<open>airlineFilter\<close> built by \<open>SearchAll\<close>, and a lookup in a \<open>map[string]bool\<close>.\<close>

definition airlineFilter :: "string list \<Rightarrow> (string \<times> bool) list" where
  "airlineFilter airlines = fold (\<lambda>airline m. AList.update (ToLower airline) True m) airlines []"

definition lookup_bool :: "(string \<times> bool) list \<Rightarrow> string \<Rightarrow> bool" where
  "lookup_bool m k = (case map_of m k of None \<Rightarrow> False | Some b \<Rightarrow> b)"

text \<open>The local variable \<open>providersToQuery\<close> of \<open>SearchAll\<close> after the selection block.\<close>

definition providersToQuery :: "Aggregator \<Rightarrow> SearchRequest \<Rightarrow> Provider list" where
  "providersToQuery a req =
     (case Filters req of
        None \<Rightarrow> providers a
      | Some f \<Rightarrow>
          if 0 < length (Airlines f) then
            (let filteredProviders =
                   filter (\<lambda>provider.
                       lookup_bool (airlineFilter (Airlines f)) (ToLower (Provider_Name provider)))
                     (providers a)
             in if 0 < length filteredProviders then filteredProviders else providers a)
          else providers a)"

definition isRetryableError :: "error option \<Rightarrow> bool" where
  "isRetryableError err =
     (case err of
        None \<Rightarrow> False
      | Some e \<Rightarrow>
          if errors_Is e ErrNoFlightsFound then False
          else if errors_Is e ErrProviderTimeout \<or> errors_Is e ErrProviderUnavailable
                  \<or> errors_Is e ErrInvalidResponse then True
          else True)"

text \<open>\<open>queryProvider\<close> without retry: one call of \<open>Search\<close>.\<close>

definition queryProvider :: "Provider \<Rightarrow> SearchRequest \<Rightarrow> ProviderResult" where
  "queryProvider provider req =
     (let (flights, err) = Provider_Search provider req 1
      in \<lparr>pr_Provider = Provider_Name provider, pr_Flights = flights, pr_Error = err\<rparr>)"

text \<open>
  \<open>queryProvider\<close> with retry. The closure stores what the latest call of \<open>Search\<close>
  returned in \<open>flights\<close> and \<open>err\<close>, both nil when no call was made.
\<close>

definition queryProvider_retry ::
  "Context \<Rightarrow> Aggregator \<Rightarrow> Provider \<Rightarrow> SearchRequest \<Rightarrow> ProviderResult" where
  "queryProvider_retry ctx a provider req =
     (let fn = (\<lambda>k. case snd (Provider_Search provider req k) of
                       Some err \<Rightarrow> (Some err, isRetryableError (Some err))
                     | None \<Rightarrow> (None, False));
          (retryErr, waited, calls) =
             RetryWithCheck ctx (retryParams a) fn (''provider '' @ Provider_Name provider);
          flights = (if calls < 1 then [] else fst (Provider_Search provider req calls));
          err = (if calls < 1 then None else snd (Provider_Search provider req calls))
      in \<lparr>pr_Provider = Provider_Name provider, pr_Flights = flights,
          pr_Error = (case retryErr of Some e \<Rightarrow> Some e | None \<Rightarrow> err)\<rparr>)"

definition collect_step :: "ProviderResult \<Rightarrow> AggregatedResults \<Rightarrow> AggregatedResults" where
  "collect_step result aggregated =
     (case pr_Error result of
        Some e \<Rightarrow>
          aggregated\<lparr>ProviderErrors :=
             AList.update (pr_Provider result) (Error e) (ProviderErrors aggregated)\<rparr>
      | None \<Rightarrow>
          aggregated\<lparr>Flights := Flights aggregated @ pr_Flights result,
             ProviderResults :=
               AList.update (pr_Provider result) (int (length (pr_Flights result)))
                 (ProviderResults aggregated)\<rparr>)"

definition collectResults :: "ProviderResult list \<Rightarrow> AggregatedResults" where
  "collectResults results =
     fold collect_step results \<lparr>Flights = [], ProviderResults = [], ProviderErrors = []\<rparr>"

text \<open>
  \<open>SearchAll\<close>. One task for each selected provider puts one outcome on the channel;
  \<open>arrival\<close> is the order in which the channel delivers them, and \<open>query\<close> is the
  \<open>queryProvider\<close> of the aggregator at hand. The two versions of the aggregator differ in
  \<open>queryProvider\<close> only.
\<close>

definition SearchAll_with ::
  "(Provider \<Rightarrow> SearchRequest \<Rightarrow> ProviderResult) \<Rightarrow> (ProviderResult list \<Rightarrow> ProviderResult list) \<Rightarrow>
   Aggregator \<Rightarrow> SearchRequest \<Rightarrow> AggregatedResults \<times> error option" where
  "SearchAll_with query arrival a req =
     (let results = arrival (map (\<lambda>p. query p req) (providersToQuery a req));
          aggregated = collectResults results
      in if length (Flights aggregated) = 0
         then (aggregated, Some (Errorf ''no flights found from any provider'' None))
         else (aggregated, None))"

definition SearchAll ::
  "(ProviderResult list \<Rightarrow> ProviderResult list) \<Rightarrow> Aggregator \<Rightarrow> SearchRequest \<Rightarrow>
   AggregatedResults \<times> error option" where
  "SearchAll arrival a req = SearchAll_with queryProvider arrival a req"

definition SearchAll_retry ::
  "Context \<Rightarrow> (ProviderResult list \<Rightarrow> ProviderResult list) \<Rightarrow> Aggregator \<Rightarrow> SearchRequest \<Rightarrow>
   AggregatedResults \<times> error option" where
  "SearchAll_retry ctx arrival a req = SearchAll_with (queryProvider_retry ctx a) arrival a req"

section \<open>The library sort\<close>

text \<open>
  \<open>sort.Slice\<close> is not part of the repository. Its model follows the implementation in
  the Go standard library (pattern-defeating quicksort, \<open>sort/zsortfunc.go\<close>, Go 1.19 and
  later). The slice is a list, \<open>data.Less(i, j)\<close> applies the closure \<open>less\<close> (here \<open>lessf\<close>) to the elements
  at \<open>i\<close> and \<open>j\<close>, and \<open>data.Swap(i, j)\<close> exchanges them; every function returns the slice
  that the Go function leaves behind.
\<close>

definition Less :: "('a \<Rightarrow> 'a \<Rightarrow> bool) \<Rightarrow> 'a list \<Rightarrow> int \<Rightarrow> int \<Rightarrow> bool" where
  "Less lessf data i j = lessf (data ! nat i) (data ! nat j)"

definition Swap :: "'a list \<Rightarrow> int \<Rightarrow> int \<Rightarrow> 'a list" where
  "Swap data i j = (data[nat i := data ! nat j])[nat j := data ! nat i]"

function insertionSort_inner :: "('a \<Rightarrow> 'a \<Rightarrow> bool) \<Rightarrow> 'a list \<Rightarrow> int \<Rightarrow> int \<Rightarrow> 'a list" where
  "insertionSort_inner lessf data a j =
     (if a < j \<and> Less lessf data j (j - 1)
      then insertionSort_inner lessf (Swap data j (j - 1)) a (j - 1)
      else data)"
  by pat_completeness auto
termination
  by (relation "measure (\<lambda>(lessf, data, a, j). nat (j - a))") auto

function insertionSort_loop :: "('a \<Rightarrow> 'a \<Rightarrow> bool) \<Rightarrow> 'a list \<Rightarrow> int \<Rightarrow> int \<Rightarrow> int \<Rightarrow> 'a list" where
  "insertionSort_loop lessf data a b i =
     (if i < b then insertionSort_loop lessf (insertionSort_inner lessf data a i) a b (i + 1)
      else data)"
  by pat_completeness auto
termination
  by (relation "measure (\<lambda>(lessf, data, a, b, i). nat (b - i))") auto

definition insertionSort_func :: "('a \<Rightarrow> 'a \<Rightarrow> bool) \<Rightarrow> 'a list \<Rightarrow> int \<Rightarrow> int \<Rightarrow> 'a list" where
  "insertionSort_func lessf data a b = insertionSort_loop lessf data a b (a + 1)"

text \<open>The heap indices \<open>root\<close>, \<open>child\<close>, \<open>hi\<close> and \<open>first\<close> are never negative.\<close>

function siftDown_loop :: "('a \<Rightarrow> 'a \<Rightarrow> bool) \<Rightarrow> 'a list \<Rightarrow> nat \<Rightarrow> nat \<Rightarrow> nat \<Rightarrow> 'a list" where
  "siftDown_loop lessf data rootIx hi first =
     (if hi \<le> 2 * rootIx + 1 then data
      else
        (let child = (if 2 * rootIx + 2 < hi \<and>
                         Less lessf data (int (first + (2 * rootIx + 1))) (int (first + (2 * rootIx + 2)))
                      then 2 * rootIx + 2 else 2 * rootIx + 1)
         in if \<not> Less lessf data (int (first + rootIx)) (int (first + child)) then data
            else siftDown_loop lessf (Swap data (int (first + rootIx)) (int (first + child)))
                   child hi first))"
  by pat_completeness auto
termination
  by (relation "measure (\<lambda>(lessf, data, rootIx, hi, first). hi - rootIx)") (auto simp: Let_def)

definition siftDown_func :: "('a \<Rightarrow> 'a \<Rightarrow> bool) \<Rightarrow> 'a list \<Rightarrow> int \<Rightarrow> int \<Rightarrow> int \<Rightarrow> 'a list" where
  "siftDown_func lessf data lo hi first = siftDown_loop lessf data (nat lo) (nat hi) (nat first)"

text \<open>The two loops of \<open>heapSort_func\<close> count \<open>i\<close> down to \<open>0\<close>.\<close>

definition heapSort_func :: "('a \<Rightarrow> 'a \<Rightarrow> bool) \<Rightarrow> 'a list \<Rightarrow> int \<Rightarrow> int \<Rightarrow> 'a list" where
  "heapSort_func lessf data a b =
     (let first = a; lo = 0; hi = b - a;
          built = fold (\<lambda>i d. siftDown_func lessf d i hi first) (rev [0..(hi - 1) div 2]) data
      in fold (\<lambda>i d. siftDown_func lessf (Swap d first (first + i)) lo i first)
           (rev [0..hi - 1]) built)"

function partition_scan_up :: "('a \<Rightarrow> 'a \<Rightarrow> bool) \<Rightarrow> 'a list \<Rightarrow> int \<Rightarrow> int \<Rightarrow> int \<Rightarrow> int" where
  "partition_scan_up lessf data a i j =
     (if i \<le> j \<and> Less lessf data i a then partition_scan_up lessf data a (i + 1) j else i)"
  by pat_completeness auto
termination
  by (relation "measure (\<lambda>(lessf, data, a, i, j). nat (j + 1 - i))") auto

function partition_scan_down :: "('a \<Rightarrow> 'a \<Rightarrow> bool) \<Rightarrow> 'a list \<Rightarrow> int \<Rightarrow> int \<Rightarrow> int \<Rightarrow> int" where
  "partition_scan_down lessf data a i j =
     (if i \<le> j \<and> \<not> Less lessf data j a then partition_scan_down lessf data a i (j - 1) else j)"
  by pat_completeness auto
termination
  by (relation "measure (\<lambda>(lessf, data, a, i, j). nat (j + 1 - i))") auto

declare insertionSort_inner.simps [simp del] insertionSort_loop.simps [simp del]
  siftDown_loop.simps [simp del] partition_scan_up.simps [simp del]
  partition_scan_down.simps [simp del]

lemma partition_scan_up_ge: "i \<le> partition_scan_up lessf data a i j"
proof (induction lessf data a i j rule: partition_scan_up.induct)
  case (1 lessf data a i j)
  then show ?case
    by (subst partition_scan_up.simps) (auto split: if_splits)
qed

lemma partition_scan_down_le: "partition_scan_down lessf data a i j \<le> j"
proof (induction lessf data a i j rule: partition_scan_down.induct)
  case (1 lessf data a i j)
  then show ?case
    by (subst partition_scan_down.simps) (auto split: if_splits)
qed

function partition_loop ::
  "('a \<Rightarrow> 'a \<Rightarrow> bool) \<Rightarrow> 'a list \<Rightarrow> int \<Rightarrow> int \<Rightarrow> int \<Rightarrow> 'a list \<times> int" where
  "partition_loop lessf data a i j =
     (let i' = partition_scan_up lessf data a i j;
          j' = partition_scan_down lessf data a i' j
      in if j' < i' then (data, j')
         else partition_loop lessf (Swap data i' j') a (i' + 1) (j' - 1))"
  by pat_completeness auto
termination
proof (relation "measure (\<lambda>(lessf, data, a, i, j). nat (j + 1 - i))", goal_cases)
  case 1
  show ?case by simp
next
  case (2 lessf data a i j i' j')
  then show ?case
    using partition_scan_up_ge [of i lessf data a j]
      partition_scan_down_le [of lessf data a "partition_scan_up lessf data a i j" j]
    by simp
qed


declare partition_loop.simps [simp del]

text \<open>
  \<open>partition_func\<close> returns the slice, the new index of the pivot and the flag
  \<open>alreadyPartitioned\<close>.
\<close>

definition partition_func ::
  "('a \<Rightarrow> 'a \<Rightarrow> bool) \<Rightarrow> 'a list \<Rightarrow> int \<Rightarrow> int \<Rightarrow> int \<Rightarrow> 'a list \<times> int \<times> bool" where
  "partition_func lessf data0 a b pivot =
     (let data = Swap data0 a pivot;
          i = partition_scan_up lessf data a (a + 1) (b - 1);
          j = partition_scan_down lessf data a i (b - 1)
      in if j < i then (Swap data j a, j, True)
         else (let (data', j') = partition_loop lessf (Swap data i j) a (i + 1) (j - 1)
               in (Swap data' j' a, j', False)))"

function partitionEqual_scan_up :: "('a \<Rightarrow> 'a \<Rightarrow> bool) \<Rightarrow> 'a list \<Rightarrow> int \<Rightarrow> int \<Rightarrow> int \<Rightarrow> int" where
  "partitionEqual_scan_up lessf data a i j =
     (if i \<le> j \<and> \<not> Less lessf data a i then partitionEqual_scan_up lessf data a (i + 1) j else i)"
  by pat_completeness auto
termination
  by (relation "measure (\<lambda>(lessf, data, a, i, j). nat (j + 1 - i))") auto

function partitionEqual_scan_down :: "('a \<Rightarrow> 'a \<Rightarrow> bool) \<Rightarrow> 'a list \<Rightarrow> int \<Rightarrow> int \<Rightarrow> int \<Rightarrow> int" where
  "partitionEqual_scan_down lessf data a i j =
     (if i \<le> j \<and> Less lessf data a j then partitionEqual_scan_down lessf data a i (j - 1) else j)"
  by pat_completeness auto
termination
  by (relation "measure (\<lambda>(lessf, data, a, i, j). nat (j + 1 - i))") auto

declare partitionEqual_scan_up.simps [simp del] partitionEqual_scan_down.simps [simp del]

lemma partitionEqual_scan_up_ge: "i \<le> partitionEqual_scan_up lessf data a i j"
proof (induction lessf data a i j rule: partitionEqual_scan_up.induct)
  case (1 lessf data a i j)
  then show ?case
    by (subst partitionEqual_scan_up.simps) (auto split: if_splits)
qed

lemma partitionEqual_scan_down_le: "partitionEqual_scan_down lessf data a i j \<le> j"
proof (induction lessf data a i j rule: partitionEqual_scan_down.induct)
  case (1 lessf data a i j)
  then show ?case
    by (subst partitionEqual_scan_down.simps) (auto split: if_splits)
qed

function partitionEqual_loop ::
  "('a \<Rightarrow> 'a \<Rightarrow> bool) \<Rightarrow> 'a list \<Rightarrow> int \<Rightarrow> int \<Rightarrow> int \<Rightarrow> 'a list \<times> int" where
  "partitionEqual_loop lessf data a i j =
     (let i' = partitionEqual_scan_up lessf data a i j;
          j' = partitionEqual_scan_down lessf data a i' j
      in if j' < i' then (data, i')
         else partitionEqual_loop lessf (Swap data i' j') a (i' + 1) (j' - 1))"
  by pat_completeness auto
termination
proof (relation "measure (\<lambda>(lessf, data, a, i, j). nat (j + 1 - i))", goal_cases)
  case 1
  show ?case by simp
next
  case (2 lessf data a i j i' j')
  then show ?case
    using partitionEqual_scan_up_ge [of i lessf data a j]
      partitionEqual_scan_down_le [of lessf data a "partitionEqual_scan_up lessf data a i j" j]
    by simp
qed

declare partitionEqual_loop.simps [simp del]

definition partitionEqual_func ::
  "('a \<Rightarrow> 'a \<Rightarrow> bool) \<Rightarrow> 'a list \<Rightarrow> int \<Rightarrow> int \<Rightarrow> int \<Rightarrow> 'a list \<times> int" where
  "partitionEqual_func lessf data a b pivot =
     partitionEqual_loop lessf (Swap data a pivot) a (a + 1) (b - 1)"

function partialInsertionSort_scan :: "('a \<Rightarrow> 'a \<Rightarrow> bool) \<Rightarrow> 'a list \<Rightarrow> int \<Rightarrow> int \<Rightarrow> int" where
  "partialInsertionSort_scan lessf data i b =
     (if i < b \<and> \<not> Less lessf data i (i - 1) then partialInsertionSort_scan lessf data (i + 1) b
      else i)"
  by pat_completeness auto
termination
  by (relation "measure (\<lambda>(lessf, data, i, b). nat (b - i))") auto

function shift_smaller_left :: "('a \<Rightarrow> 'a \<Rightarrow> bool) \<Rightarrow> 'a list \<Rightarrow> int \<Rightarrow> 'a list" where
  "shift_smaller_left lessf data j =
     (if 1 \<le> j then
        (if \<not> Less lessf data j (j - 1) then data
         else shift_smaller_left lessf (Swap data j (j - 1)) (j - 1))
      else data)"
  by pat_completeness auto
termination
  by (relation "measure (\<lambda>(lessf, data, j). nat j)") auto

function shift_greater_right :: "('a \<Rightarrow> 'a \<Rightarrow> bool) \<Rightarrow> 'a list \<Rightarrow> int \<Rightarrow> int \<Rightarrow> 'a list" where
  "shift_greater_right lessf data j b =
     (if j < b then
        (if \<not> Less lessf data j (j - 1) then data
         else shift_greater_right lessf (Swap data j (j - 1)) (j + 1) b)
      else data)"
  by pat_completeness auto
termination
  by (relation "measure (\<lambda>(lessf, data, j, b). nat (b - j))") auto

declare partialInsertionSort_scan.simps [simp del] shift_smaller_left.simps [simp del]
  shift_greater_right.simps [simp del]

text \<open>
  The outer loop of \<open>partialInsertionSort_func\<close> runs at most \<open>maxSteps = 5\<close> times; the
  first argument counts the steps that remain.
\<close>

fun partialInsertionSort_steps ::
  "nat \<Rightarrow> ('a \<Rightarrow> 'a \<Rightarrow> bool) \<Rightarrow> 'a list \<Rightarrow> int \<Rightarrow> int \<Rightarrow> int \<Rightarrow> bool \<times> 'a list" where
  "partialInsertionSort_steps 0 lessf data a b i = (False, data)"
| "partialInsertionSort_steps (Suc n) lessf data a b i =
     (let i' = partialInsertionSort_scan lessf data i b
      in if i' = b then (True, data)
         else if b - a < 50 then (False, data)
         else
           (let d1 = Swap data i' (i' - 1);
                d2 = (if 2 \<le> i' - a then shift_smaller_left lessf d1 (i' - 1) else d1);
                d3 = (if 2 \<le> b - i' then shift_greater_right lessf d2 (i' + 1) b else d2)
            in partialInsertionSort_steps n lessf d3 a b i'))"

definition partialInsertionSort_func ::
  "('a \<Rightarrow> 'a \<Rightarrow> bool) \<Rightarrow> 'a list \<Rightarrow> int \<Rightarrow> int \<Rightarrow> bool \<times> 'a list" where
  "partialInsertionSort_func lessf data a b = partialInsertionSort_steps 5 lessf data a b (a + 1)"

text \<open>\<open>bits.Len\<close>, the xorshift generator and \<open>breakPatterns_func\<close>.\<close>

function bits_Len :: "nat \<Rightarrow> nat" where
  "bits_Len n = (if n = 0 then 0 else Suc (bits_Len (n div 2)))"
  by pat_completeness auto
termination
  by (relation "measure id") auto

declare bits_Len.simps [simp del]

definition xorshift_Next :: "64 word \<Rightarrow> 64 word" where
  "xorshift_Next r =
     (let r1 = r XOR push_bit 13 r;
          r2 = r1 XOR drop_bit 7 r1
      in r2 XOR push_bit 17 r2)"

definition nextPowerOfTwo :: "int \<Rightarrow> 64 word" where
  "nextPowerOfTwo len = push_bit (bits_Len (nat len)) 1"

definition breakPatterns_step :: "int \<Rightarrow> int \<Rightarrow> 64 word \<Rightarrow> int \<Rightarrow> int \<Rightarrow> 64 word \<times> 'a list \<Rightarrow> 64 word \<times> 'a list" where
  "breakPatterns_step a len modulus idx i st =
     (let random = xorshift_Next (fst st);
          other0 = uint (random AND (modulus - 1));
          other = (if len \<le> other0 then other0 - len else other0)
      in (random, Swap (snd st) (idx - 1 + i) (a + other)))"

definition breakPatterns_func :: "'a list \<Rightarrow> int \<Rightarrow> int \<Rightarrow> 'a list" where
  "breakPatterns_func data a b =
     (let len = b - a
      in if 8 \<le> len then
           (let random = (word_of_int len :: 64 word);
                modulus = nextPowerOfTwo len;
                idx = a + (len div 4) * 2 - 1
            in snd (fold (breakPatterns_step a len modulus idx) [0, 1, 2] (random, data)))
         else data)"

datatype sortedHint = unknownHint | increasingHint | decreasingHint

definition order2_func ::
  "('a \<Rightarrow> 'a \<Rightarrow> bool) \<Rightarrow> 'a list \<Rightarrow> int \<Rightarrow> int \<Rightarrow> int \<Rightarrow> int \<times> int \<times> int" where
  "order2_func lessf data a b swaps =
     (if Less lessf data b a then (b, a, swaps + 1) else (a, b, swaps))"

definition median_func ::
  "('a \<Rightarrow> 'a \<Rightarrow> bool) \<Rightarrow> 'a list \<Rightarrow> int \<Rightarrow> int \<Rightarrow> int \<Rightarrow> int \<Rightarrow> int \<times> int" where
  "median_func lessf data a b c swaps =
     (let (a1, b1, s1) = order2_func lessf data a b swaps;
          (b2, c2, s2) = order2_func lessf data b1 c s1;
          (a3, b3, s3) = order2_func lessf data a1 b2 s2
      in (b3, s3))"

definition medianAdjacent_func ::
  "('a \<Rightarrow> 'a \<Rightarrow> bool) \<Rightarrow> 'a list \<Rightarrow> int \<Rightarrow> int \<Rightarrow> int \<times> int" where
  "medianAdjacent_func lessf data a swaps = median_func lessf data (a - 1) a (a + 1) swaps"

definition choosePivot_func ::
  "('a \<Rightarrow> 'a \<Rightarrow> bool) \<Rightarrow> 'a list \<Rightarrow> int \<Rightarrow> int \<Rightarrow> int \<times> sortedHint" where
  "choosePivot_func lessf data a b =
     (let l = b - a;
          i = a + l div 4 * 1;
          j = a + l div 4 * 2;
          k = a + l div 4 * 3;
          (j', swaps) =
            (if 8 \<le> l then
               (if 50 \<le> l then
                  (let (i1, s1) = medianAdjacent_func lessf data i 0;
                       (j1, s2) = medianAdjacent_func lessf data j s1;
                       (k1, s3) = medianAdjacent_func lessf data k s2
                   in median_func lessf data i1 j1 k1 s3)
                else median_func lessf data i j k 0)
             else (j, 0))
      in if swaps = 0 then (j', increasingHint)
         else if swaps = 12 then (j', decreasingHint)
         else (j', unknownHint))"

function reverseRange_loop :: "'a list \<Rightarrow> int \<Rightarrow> int \<Rightarrow> 'a list" where
  "reverseRange_loop data i j =
     (if i < j then reverseRange_loop (Swap data i j) (i + 1) (j - 1) else data)"
  by pat_completeness auto
termination
  by (relation "measure (\<lambda>(data, i, j). nat (j - i))") auto

declare reverseRange_loop.simps [simp del]

definition reverseRange_func :: "'a list \<Rightarrow> int \<Rightarrow> int \<Rightarrow> 'a list" where
  "reverseRange_func data a b = reverseRange_loop data a (b - 1)"


text \<open>Where the partition functions leave the pivot.\<close>

lemma partition_scan_down_ge: "min j (i - 1) \<le> partition_scan_down lessf data a i j"
proof (induction lessf data a i j rule: partition_scan_down.induct)
  case (1 lessf data a i j)
  then show ?case
    by (subst partition_scan_down.simps) (auto split: if_splits)
qed

lemma partition_loop_bounds:
  "a < i \<Longrightarrow> a \<le> j \<Longrightarrow>
     a \<le> snd (partition_loop lessf data a i j) \<and> snd (partition_loop lessf data a i j) \<le> j"
proof (induction lessf data a i j rule: partition_loop.induct)
  case (1 lessf data a i j)
  define i' where "i' = partition_scan_up lessf data a i j"
  define j' where "j' = partition_scan_down lessf data a i' j"
  have i': "i \<le> i'"
    unfolding i'_def by (rule partition_scan_up_ge)
  have j': "j' \<le> j" "min j (i' - 1) \<le> j'"
    unfolding j'_def by (rule partition_scan_down_le, rule partition_scan_down_ge)
  show ?case
  proof (cases "j' < i'")
    case True
    then show ?thesis
      using i' j' "1.prems"
      by (subst partition_loop.simps, subst partition_loop.simps)
         (simp add: Let_def i'_def [symmetric] j'_def [symmetric])
  next
    case False
    from "1.IH" [OF i'_def j'_def False] False i' j' "1.prems"
    have "a \<le> snd (partition_loop lessf (Swap data i' j') a (i' + 1) (j' - 1)) \<and>
          snd (partition_loop lessf (Swap data i' j') a (i' + 1) (j' - 1)) \<le> j' - 1"
      by simp
    then show ?thesis
      using False j'
      by (subst partition_loop.simps, subst partition_loop.simps)
         (simp add: Let_def i'_def [symmetric] j'_def [symmetric])
  qed
qed

lemma partition_func_bounds:
  assumes "a < b"
  shows "a \<le> fst (snd (partition_func lessf data a b pivot)) \<and>
         fst (snd (partition_func lessf data a b pivot)) < b"
proof -
  define d where "d = Swap data a pivot"
  define i where "i = partition_scan_up lessf d a (a + 1) (b - 1)"
  define j where "j = partition_scan_down lessf d a i (b - 1)"
  have i: "a + 1 \<le> i"
    unfolding i_def by (rule partition_scan_up_ge)
  have j: "j \<le> b - 1" "min (b - 1) (i - 1) \<le> j"
    unfolding j_def by (rule partition_scan_down_le, rule partition_scan_down_ge)
  show ?thesis
  proof (cases "j < i")
    case True
    then show ?thesis
      using i j assms
      by (simp add: partition_func_def Let_def d_def [symmetric] i_def [symmetric]
          j_def [symmetric])
  next
    case False
    with i j have "a < i + 1" "a \<le> j - 1" by auto
    from partition_loop_bounds [OF this, of lessf "Swap d i j"] False j
    show ?thesis
      by (auto simp: partition_func_def Let_def d_def [symmetric] i_def [symmetric]
          j_def [symmetric] split: prod.splits)
  qed
qed

lemma partitionEqual_loop_bounds: "i \<le> snd (partitionEqual_loop lessf data a i j)"
proof (induction lessf data a i j rule: partitionEqual_loop.induct)
  case (1 lessf data a i j)
  define i' where "i' = partitionEqual_scan_up lessf data a i j"
  define j' where "j' = partitionEqual_scan_down lessf data a i' j"
  have i': "i \<le> i'"
    unfolding i'_def by (rule partitionEqual_scan_up_ge)
  show ?case
  proof (cases "j' < i'")
    case True
    then show ?thesis
      using i'
      by (subst partitionEqual_loop.simps) (simp add: Let_def i'_def [symmetric] j'_def [symmetric])
  next
    case False
    from "1.IH" [OF i'_def j'_def False] i'
    show ?thesis
      using False
      by (subst partitionEqual_loop.simps) (simp add: Let_def i'_def [symmetric] j'_def [symmetric])
  qed
qed

lemma partitionEqual_func_bounds: "a < snd (partitionEqual_func lessf data a b pivot)"
  using partitionEqual_loop_bounds [of "a + 1" lessf "Swap data a pivot" a "b - 1"]
  by (simp add: partitionEqual_func_def)

text \<open>
  \<open>pdqsort_func\<close>. The flags \<open>wasBalanced\<close> and \<open>wasPartitioned\<close> are local variables of
  the Go function, true at every call; they are arguments here because the \<open>for\<close> loop
  carries them from one round to the next.
\<close>

function pdqsort_func ::
  "('a \<Rightarrow> 'a \<Rightarrow> bool) \<Rightarrow> 'a list \<Rightarrow> int \<Rightarrow> int \<Rightarrow> int \<Rightarrow> bool \<Rightarrow> bool \<Rightarrow> 'a list" where
  "pdqsort_func lessf data a b limit wasBalanced wasPartitioned =
     (if b - a \<le> 12 then insertionSort_func lessf data a b
      else if limit = 0 then heapSort_func lessf data a b
      else
        (let d1 = (if \<not> wasBalanced then breakPatterns_func data a b else data);
             limit1 = (if \<not> wasBalanced then limit - 1 else limit);
             chosen = choosePivot_func lessf d1 a b;
             d2 = (if snd chosen = decreasingHint then reverseRange_func d1 a b else d1);
             pivot = (if snd chosen = decreasingHint then (b - 1) - (fst chosen - a)
                      else fst chosen);
             hint = (if snd chosen = decreasingHint then increasingHint else snd chosen);
             partial = (if wasBalanced \<and> wasPartitioned \<and> hint = increasingHint
                        then partialInsertionSort_func lessf d2 a b else (False, d2));
             d3 = snd partial
         in if fst partial then d3
            else if 0 < a \<and> \<not> Less lessf d3 (a - 1) pivot then
              (let eq = partitionEqual_func lessf d3 a b pivot
               in pdqsort_func lessf (fst eq) (snd eq) b limit1 wasBalanced wasPartitioned)
            else
              (let part = partition_func lessf d3 a b pivot;
                   mid = fst (snd part);
                   alreadyPartitioned = snd (snd part);
                   leftLen = mid - a;
                   rightLen = b - mid;
                   balanceThreshold = (b - a) div 8
               in if leftLen < rightLen
                  then pdqsort_func lessf (pdqsort_func lessf (fst part) a mid limit1 True True)
                         (mid + 1) b limit1 (balanceThreshold \<le> leftLen) alreadyPartitioned
                  else pdqsort_func lessf (pdqsort_func lessf (fst part) (mid + 1) b limit1 True True)
                         a mid limit1 (balanceThreshold \<le> rightLen) alreadyPartitioned)))"
  by pat_completeness auto
termination
proof (relation "measure (\<lambda>(lessf, data, a, b, rest). nat (b - a))", goal_cases)
  case 1
  show ?case by simp
next
  case (2 lessf data a b limit wasBalanced wasPartitioned d1 limit1 chosen d2 pivot hint partial d3 eq)
  then show ?case
    using partitionEqual_func_bounds [of a lessf d3 b pivot] by simp
next
  case (3 lessf data a b limit wasBalanced wasPartitioned d1 limit1 chosen d2 pivot hint partial d3 part mid)
  then show ?case
    using partition_func_bounds [of a b lessf d3 pivot] by simp
next
  case (4 lessf data a b limit wasBalanced wasPartitioned d1 limit1 chosen d2 pivot hint partial d3 part mid)
  then show ?case
    using partition_func_bounds [of a b lessf d3 pivot] by simp
next
  case (5 lessf data a b limit wasBalanced wasPartitioned d1 limit1 chosen d2 pivot hint partial d3 part mid)
  then show ?case
    using partition_func_bounds [of a b lessf d3 pivot] by simp
next
  case (6 lessf data a b limit wasBalanced wasPartitioned d1 limit1 chosen d2 pivot hint partial d3 part mid)
  then show ?case
    using partition_func_bounds [of a b lessf d3 pivot] by simp
qed

declare pdqsort_func.simps [simp del]

definition sort_Slice :: "('a \<Rightarrow> 'a \<Rightarrow> bool) \<Rightarrow> 'a list \<Rightarrow> 'a list" where
  "sort_Slice lessf x =
     pdqsort_func lessf x 0 (int (length x)) (int (bits_Len (length x))) True True"

section \<open>Filter engine\<close>

definition filterByPrice :: "Flight list \<Rightarrow> real option \<Rightarrow> real option \<Rightarrow> Flight list" where
  "filterByPrice flights minPrice maxPrice =
     filter (\<lambda>flight.
         let price = Amount (Price flight)
         in \<not> (case minPrice of None \<Rightarrow> False | Some m \<Rightarrow> price < m) \<and>
            \<not> (case maxPrice of None \<Rightarrow> False | Some m \<Rightarrow> m < price))
       flights"

definition filterByStops :: "Flight list \<Rightarrow> int \<Rightarrow> Flight list" where
  "filterByStops flights maxStops = filter (\<lambda>flight. Stops flight \<le> maxStops) flights"

definition filterByDepartureTime :: "Flight list \<Rightarrow> TimeRange \<Rightarrow> Flight list" where
  "filterByDepartureTime flights timeRange =
     filter (\<lambda>flight.
         let hour = Time_Hour (Datetime (Departure flight))
         in Start timeRange \<le> hour \<and> hour \<le> End timeRange)
       flights"

definition filterByArrivalTime :: "Flight list \<Rightarrow> TimeRange \<Rightarrow> Flight list" where
  "filterByArrivalTime flights timeRange =
     filter (\<lambda>flight.
         let hour = Time_Hour (Datetime (Arrival flight))
         in Start timeRange \<le> hour \<and> hour \<le> End timeRange)
       flights"

definition filterByDuration :: "Flight list \<Rightarrow> int \<Rightarrow> Flight list" where
  "filterByDuration flights maxDuration =
     filter (\<lambda>flight. TotalMinutes (Duration flight) \<le> maxDuration) flights"

definition Apply :: "Flight list \<Rightarrow> FilterOptions \<Rightarrow> Flight list" where
  "Apply flights filters =
     (let r1 = (if MinPrice filters \<noteq> None \<or> MaxPrice filters \<noteq> None
                then filterByPrice flights (MinPrice filters) (MaxPrice filters) else flights);
          r2 = (case MaxStops filters of None \<Rightarrow> r1 | Some m \<Rightarrow> filterByStops r1 m);
          r3 = (case DepartureTime filters of None \<Rightarrow> r2 | Some t \<Rightarrow> filterByDepartureTime r2 t);
          r4 = (case ArrivalTime filters of None \<Rightarrow> r3 | Some t \<Rightarrow> filterByArrivalTime r3 t)
      in case MaxDuration filters of None \<Rightarrow> r4 | Some m \<Rightarrow> filterByDuration r4 m)"

section \<open>Sorter\<close>

definition sortByPrice :: "Flight list \<Rightarrow> bool \<Rightarrow> Flight list" where
  "sortByPrice flights ascending =
     sort_Slice (\<lambda>fi fj. if ascending then Amount (Price fi) < Amount (Price fj)
                         else Amount (Price fj) < Amount (Price fi)) flights"

definition sortByDuration :: "Flight list \<Rightarrow> bool \<Rightarrow> Flight list" where
  "sortByDuration flights ascending =
     sort_Slice (\<lambda>fi fj. if ascending then TotalMinutes (Duration fi) < TotalMinutes (Duration fj)
                         else TotalMinutes (Duration fj) < TotalMinutes (Duration fi)) flights"

definition sortByDepartureTime :: "Flight list \<Rightarrow> bool \<Rightarrow> Flight list" where
  "sortByDepartureTime flights ascending =
     sort_Slice (\<lambda>fi fj. if ascending
                         then Time_Before (Datetime (Departure fi)) (Datetime (Departure fj))
                         else Time_After (Datetime (Departure fi)) (Datetime (Departure fj)))
       flights"

definition sortByArrivalTime :: "Flight list \<Rightarrow> bool \<Rightarrow> Flight list" where
  "sortByArrivalTime flights ascending =
     sort_Slice (\<lambda>fi fj. if ascending
                         then Time_Before (Datetime (Arrival fi)) (Datetime (Arrival fj))
                         else Time_After (Datetime (Arrival fi)) (Datetime (Arrival fj)))
       flights"

definition sortByStops :: "Flight list \<Rightarrow> bool \<Rightarrow> Flight list" where
  "sortByStops flights ascending =
     sort_Slice (\<lambda>fi fj. if ascending then Stops fi < Stops fj else Stops fj < Stops fi) flights"

text \<open>\<open>Sort\<close> works on a copy of the slice, so the argument list is left as it is.\<close>

definition Sort :: "Flight list \<Rightarrow> string \<Rightarrow> string \<Rightarrow> Flight list" where
  "Sort flights sortBy sortOrder =
     (let ascending = (sortOrder \<noteq> ''desc'')
      in if sortBy = ''price'' then sortByPrice flights ascending
         else if sortBy = ''duration'' then sortByDuration flights ascending
         else if sortBy = ''departure'' then sortByDepartureTime flights ascending
         else if sortBy = ''arrival'' then sortByArrivalTime flights ascending
         else if sortBy = ''stops'' then sortByStops flights ascending
         else sortByPrice flights True)"

section \<open>Scorer\<close>

record Weights =
  w_Price :: real
  w_Duration :: real
  w_Stops :: real
  w_DepartureTime :: real

record Scorer =
  weights :: Weights












section \<open>Example data\<close>

definition t_at :: "int \<Rightarrow> Time" where
  "t_at n = \<lparr>unix_nanos = n, zone_offset = 0\<rparr>"

definition demo_request :: SearchRequest where
  "demo_request = \<lparr>Origin = ''CGK'', Destination = ''DPS'', DepartureDate = ''2025-12-15'',
     ReturnDate = None, Passengers = 1, req_CabinClass = ''economy'', Filters = None,
     SortBy = [], SortOrder = [], ReturnFilters = None, ReturnSortBy = [],
     ReturnSortOrder = []\<rparr>"




definition demo_params :: Params where
  "demo_params = \<lparr>MaxAttempts = 3, InitialDelay = 100, MaxDelay = 150, BackoffMultiplier = 2\<rparr>"





text \<open>A time given by its wall-clock reading (seconds) and the offset of its zone.\<close>

definition local_time :: "int \<Rightarrow> int \<Rightarrow> Time" where
  "local_time wall off = \<lparr>unix_nanos = (wall - off) * 1000000000, zone_offset = off\<rparr>"

text \<open>A flight from Jakarta to Denpasar on 2025-12-15; \<open>dep\<close> and \<open>arr\<close> are the local
  times of day in seconds.\<close>

definition mk_flight :: "string \<Rightarrow> string \<Rightarrow> real \<Rightarrow> int \<Rightarrow> int \<Rightarrow> int \<Rightarrow> int \<Rightarrow> Flight" where
  "mk_flight number provider price minutes stops dep arr =
     \<lparr>ID = number @ ''_'' @ provider, Provider = provider, FlightNumber = number,
      Airline = \<lparr>Name = provider, Code = take 2 number\<rparr>,
      Departure = \<lparr>Airport = ''CGK'', City = ''Jakarta'',
                   Datetime = local_time (1765756800 + dep) 25200,
                   Timestamp = 1765756800 + dep - 25200\<rparr>,
      Arrival = \<lparr>Airport = ''DPS'', City = ''Denpasar'',
                 Datetime = local_time (1765756800 + arr) 28800,
                 Timestamp = 1765756800 + arr - 28800\<rparr>,
      Duration = \<lparr>TotalMinutes = minutes, Formatted = []\<rparr>,
      Stops = stops, Price = \<lparr>Amount = price, Currency = ''IDR''\<rparr>,
      CabinClass = ''economy'', AvailableSeats = 9, Aircraft = [], Amenities = [],
      Baggage = \<lparr>CarryOn = [], Checked = []\<rparr>\<rparr>"

definition flight_GA :: Flight where
  "flight_GA = mk_flight ''GA400'' ''Garuda Indonesia'' 1250000 110 0 36000 46200"

definition flight_QZ :: Flight where
  "flight_QZ = mk_flight ''QZ7250'' ''AirAsia'' 485000 260 1 54900 74100"

definition garuda :: Provider where
  "garuda = \<lparr>Provider_Name = ''Garuda Indonesia'',
     Provider_Search = (\<lambda>req k. ([flight_GA], None))\<rparr>"

definition lion :: Provider where
  "lion = \<lparr>Provider_Name = ''Lion Air'',
     Provider_Search = (\<lambda>req k. ([], Some ErrProviderUnavailable))\<rparr>"

definition airasia :: Provider where
  "airasia = \<lparr>Provider_Name = ''AirAsia'', Provider_Search = (\<lambda>req k. ([flight_QZ], None))\<rparr>"

definition demo_aggregator :: Aggregator where
  "demo_aggregator = \<lparr>providers = [garuda, lion, airasia], timeout = 5000000000,
     retryParams = demo_params\<rparr>"

definition lion_only :: Aggregator where
  "lion_only = \<lparr>providers = [lion], timeout = 5000000000, retryParams = demo_params\<rparr>"









text \<open>Thirteen flights: twelve at the same price, then a cheaper one.\<close>

definition tie_flight :: "nat \<Rightarrow> Flight" where
  "tie_flight n =
     mk_flight (''T'' @ digits_of_nat n) ''AirAsia'' (if n = 12 then 400000 else 500000)
       100 0 36000 46200"

definition tie_flights :: "Flight list" where
  "tie_flights = map tie_flight [0..<13]"

definition price_only :: Scorer where
  "price_only = \<lparr>weights = \<lparr>w_Price = 1, w_Duration = 0, w_Stops = 0, w_DepartureTime = 0\<rparr>\<rparr>"

(*THEOREMS*)

section \<open>The library sort returns a permutation\<close>


lemma length_Swap [simp]: "length (Swap data i j) = length data"
  by (simp add: Swap_def)









lemma partition_scan_up_le: "partition_scan_up lessf data a i j \<le> max i (j + 1)"
proof (induction lessf data a i j rule: partition_scan_up.induct)
  case (1 lessf data a i j)
  then show ?case
    by (subst partition_scan_up.simps) (auto split: if_splits)
qed
























section \<open>Cache: expiry and key derivation\<close>

text \<open>
  Claim C8. \<open>Cache.Get\<close> never returns an expired value. A hit at time \<open>now\<close> comes from
  an entry whose \<open>ExpiresAt\<close> has not passed and returns that entry's data; an entry whose
  \<open>ExpiresAt\<close> is before \<open>now\<close> gives a miss although it is still stored (the sweeper has
  not removed it, and \<open>Get\<close> does not remove it either); and a \<open>Get\<close> at \<open>t1\<close> after a
  \<open>Set\<close> at \<open>t0\<close> of the same key, with \<open>t1\<close> not after \<open>t0 + ttl\<close>, returns the stored
  value and adds one to the hit counter.
\<close>

theorem Cache_Get_never_expired:
  "(fst (Cache_Get now key c) = Some v \<longrightarrow>
      (\<exists>e. map_of (cache_data c) key = Some e \<and> \<not> Time_After now (ExpiresAt e) \<and> Data e = v)) \<and>
   (map_of (cache_data c) key = Some e \<and> Time_After now (ExpiresAt e) \<longrightarrow>
      fst (Cache_Get now key c) = None \<and> cache_data (snd (Cache_Get now key c)) = cache_data c) \<and>
   (\<not> Time_After t1 (Time_Add t0 (ttl c)) \<longrightarrow>
      fst (Cache_Get t1 key (Cache_Set t0 key w c)) = Some w \<and>
      Hits (stats (snd (Cache_Get t1 key (Cache_Set t0 key w c)))) = Hits (stats c) + 1)"
  by (auto simp: Cache_Get_def Cache_Set_def Let_def IsExpired_def Time_After_def Time_Add_def
        update_conv' split: option.splits if_splits)

theorem Cache_Get_never_expired_witness:
  "fst (Cache_Get (t_at 5) ''k'' (Cache_Set (t_at 0) ''k'' (7::nat) (Cache_New 10))) = Some 7 \<and>
   \<not> Time_After (t_at 5) (Time_Add (t_at 0) (ttl (Cache_New 10 :: nat Cache))) \<and>
   map_of (cache_data (Cache_Set (t_at 0) ''k'' (7::nat) (Cache_New 10))) ''k''
     = Some \<lparr>Data = 7, ExpiresAt = t_at 10\<rparr> \<and>
   Time_After (t_at 11) (ExpiresAt \<lparr>Data = 7::nat, ExpiresAt = t_at 10\<rparr>) \<and>
   fst (Cache_Get (t_at 11) ''k'' (Cache_Set (t_at 0) ''k'' (7::nat) (Cache_New 10))) = None \<and>
   Hits (stats (snd (Cache_Get (t_at 5) ''k'' (Cache_Set (t_at 0) ''k'' (7::nat) (Cache_New 10)))))
     = 1"
  using Cache_Get_never_expired [where now = "t_at 11" and key = "''k''"
      and c = "Cache_Set (t_at 0) ''k'' (7::nat) (Cache_New 10)" and v = 7
      and e = "\<lparr>Data = 7, ExpiresAt = t_at 10\<rparr>" and ?t1.0 = "t_at 5" and ?t0.0 = "t_at 0"
      and w = 7]
    Cache_Get_never_expired [where now = "t_at 5" and key = "''k''"
      and c = "Cache_New 10 :: nat Cache" and v = 7
      and e = "\<lparr>Data = 7, ExpiresAt = t_at 10\<rparr>" and ?t1.0 = "t_at 5" and ?t0.0 = "t_at 0"
      and w = 7]
  by (simp add: Cache_Set_def Cache_New_def t_at_def Time_Add_def Time_After_def)







section \<open>Retry executor: outcomes and backoff\<close>

declare RetryWithCheck_loop.simps [simp del]

declare digits_of_nat.simps [simp del]






section \<open>Aggregator: top-level error and provider selection\<close>

lemma keys_update: "fst ` set (AList.update k v al) = insert k (fst ` set al)"
  by (induction al) auto

lemma set_AList_update: "set (AList.update k v al) \<subseteq> insert (k, v) (set al)"
  by (induction al) auto

lemma collect_step_Flights:
  "Flights (collect_step r acc) =
     (if pr_Error r = None then Flights acc @ pr_Flights r else Flights acc)"
  by (simp add: collect_step_def split: option.splits)

lemma collect_step_ProviderErrors:
  "fst ` set (ProviderErrors (collect_step r acc)) =
     (if pr_Error r = None then fst ` set (ProviderErrors acc)
      else insert (pr_Provider r) (fst ` set (ProviderErrors acc)))"
  by (simp add: collect_step_def keys_update split: option.splits)

lemma collect_step_ProviderResults:
  "fst ` set (ProviderResults (collect_step r acc)) =
     (if pr_Error r = None then insert (pr_Provider r) (fst ` set (ProviderResults acc))
      else fst ` set (ProviderResults acc))"
  by (simp add: collect_step_def keys_update split: option.splits)

lemma collect_step_message:
  assumes "(n, m) \<in> set (ProviderErrors (collect_step r acc))"
  shows "(n, m) \<in> set (ProviderErrors acc) \<or> (\<exists>e. pr_Provider r = n \<and> pr_Error r = Some e \<and> m = Error e)"
proof (cases "pr_Error r")
  case None
  with assms show ?thesis by (simp add: collect_step_def)
next
  case (Some e)
  with assms have "(n, m) \<in> set (AList.update (pr_Provider r) (Error e) (ProviderErrors acc))"
    by (simp add: collect_step_def)
  then have "(n, m) \<in> insert (pr_Provider r, Error e) (set (ProviderErrors acc))"
    using set_AList_update by fastforce
  with Some show ?thesis by auto
qed

lemma Flights_fold:
  "Flights (fold collect_step rs acc) =
     Flights acc @ concat (map pr_Flights (filter (\<lambda>r. pr_Error r = None) rs))"
  by (induction rs arbitrary: acc) (simp_all add: collect_step_Flights)

lemma ProviderErrors_fold:
  "fst ` set (ProviderErrors (fold collect_step rs acc)) =
     fst ` set (ProviderErrors acc) \<union> pr_Provider ` {r \<in> set rs. pr_Error r \<noteq> None}"
  by (induction rs arbitrary: acc) (auto simp: collect_step_ProviderErrors)

lemma ProviderResults_fold:
  "fst ` set (ProviderResults (fold collect_step rs acc)) =
     fst ` set (ProviderResults acc) \<union> pr_Provider ` {r \<in> set rs. pr_Error r = None}"
  by (induction rs arbitrary: acc) (auto simp: collect_step_ProviderResults)

lemma ProviderErrors_fold_message:
  "(n, m) \<in> set (ProviderErrors (fold collect_step rs acc)) \<Longrightarrow>
     (n, m) \<in> set (ProviderErrors acc) \<or>
     (\<exists>r \<in> set rs. \<exists>e. pr_Provider r = n \<and> pr_Error r = Some e \<and> m = Error e)"
proof (induction rs arbitrary: acc)
  case Nil then show ?case by simp
next
  case (Cons r rs)
  from Cons.IH [of "collect_step r acc"] Cons.prems
  have "(n, m) \<in> set (ProviderErrors (collect_step r acc)) \<or>
     (\<exists>r \<in> set rs. \<exists>e. pr_Provider r = n \<and> pr_Error r = Some e \<and> m = Error e)"
    by simp
  then show ?case
    using collect_step_message [of n m r acc] by auto
qed

text \<open>
  Claim C5. Whatever the providers return and in whatever order their outcomes arrive,
  \<open>SearchAll\<close> returns an error exactly when the combined flight list is empty, and then
  the error is "no flights found from any provider". In both cases the returned results
  are those collected from the channel: the flights of the outcomes without error, a
  count under the name of each such outcome, and an entry of the error map under the name
  of each failed outcome, with the message of a failed outcome of that name. A failed
  outcome adds neither flights nor a count.
\<close>

theorem SearchAll_error_iff_no_flights:
  fixes query arrival a req
  defines "results \<equiv> arrival (map (\<lambda>p. query p req) (providersToQuery a req))"
  defines "aggregated \<equiv> fst (SearchAll_with query arrival a req)"
  defines "err \<equiv> snd (SearchAll_with query arrival a req)"
  shows "(err \<noteq> None \<longleftrightarrow> Flights aggregated = []) \<and>
    (Flights aggregated = [] \<longrightarrow>
       err = Some (Errorf ''no flights found from any provider'' None) \<and>
       Error (the err) = ''no flights found from any provider'') \<and>
    aggregated = collectResults results \<and>
    Flights aggregated = concat (map pr_Flights (filter (\<lambda>r. pr_Error r = None) results)) \<and>
    fst ` set (ProviderResults aggregated) = pr_Provider ` {r \<in> set results. pr_Error r = None} \<and>
    fst ` set (ProviderErrors aggregated) = pr_Provider ` {r \<in> set results. pr_Error r \<noteq> None} \<and>
    (\<forall>(n, m) \<in> set (ProviderErrors aggregated).
       \<exists>r \<in> set results. \<exists>e. pr_Provider r = n \<and> pr_Error r = Some e \<and> m = Error e)"
proof -
  have agg: "aggregated = collectResults results"
    by (simp add: aggregated_def results_def SearchAll_with_def Let_def)
  have e: "err = (if Flights aggregated = [] then Some (Errorf ''no flights found from any provider'' None) else None)"
    by (simp add: err_def aggregated_def SearchAll_with_def Let_def)
  have m: "\<forall>(n, m) \<in> set (ProviderErrors aggregated).
       \<exists>r \<in> set results. \<exists>e. pr_Provider r = n \<and> pr_Error r = Some e \<and> m = Error e"
    unfolding agg collectResults_def using ProviderErrors_fold_message by fastforce
  show ?thesis
    using m by (simp add: e) (simp add: agg collectResults_def Flights_fold ProviderErrors_fold ProviderResults_fold)
qed

theorem SearchAll_error_iff_no_flights_witness:
  "SearchAll id lion_only demo_request =
     (\<lparr>Flights = [], ProviderResults = [],
       ProviderErrors = [(''Lion Air'', ''provider unavailable'')]\<rparr>,
      Some (Errorf ''no flights found from any provider'' None)) \<and>
   SearchAll rev demo_aggregator demo_request =
     (\<lparr>Flights = [flight_QZ, flight_GA],
       ProviderResults = [(''AirAsia'', 1), (''Garuda Indonesia'', 1)],
       ProviderErrors = [(''Lion Air'', ''provider unavailable'')]\<rparr>, None)"
  using SearchAll_error_iff_no_flights [of queryProvider id lion_only demo_request]
    SearchAll_error_iff_no_flights [of queryProvider rev demo_aggregator demo_request]
  by (simp add: SearchAll_def SearchAll_with_def providersToQuery_def demo_request_def
      lion_only_def demo_aggregator_def queryProvider_def garuda_def lion_def airasia_def
      collectResults_def collect_step_def)





section \<open>Scorer: dominance\<close>


















end
